theory Spec2Isabelle
  imports Complex_Main "HOL-Library.Sublist"
begin

section \<open>Python values, exceptions and findings\<close>

text \<open>
  The two validators (\<^verbatim>\<open>json_receipt/json_validator.py\<close> and
  \<^verbatim>\<open>xml_receipt/xml_validator.py\<close>) work on the values that \<^verbatim>\<open>json.load\<close> and
  \<^verbatim>\<open>xml_to_dict\<close> produce: \<^verbatim>\<open>None\<close>, booleans, integers, floats, strings, lists and
  dictionaries. A dictionary is an association list in insertion order with distinct keys.
  Floats are modelled by exact rationals (no rounding, no NaN, no infinities); integers
  are unbounded as in Python.
\<close>

datatype pyval =
    PNone
  | PBool bool
  | PInt int
  | PFloat rat
  | PStr string
  | PList "pyval list"
  | PDict "(string \<times> pyval) list"

datatype exc = ValueError | TypeError | AttributeError | KeyError

text \<open>
  A finding is the text of an f-string: its literal pieces, the values formatted into it
  and, for \<^verbatim>\<open>str(e)\<close>, the exception whose text is inserted.
\<close>

datatype frag = Lit string | Val pyval | ExcText exc

type_synonym msg = "frag list"

text \<open>\<^verbatim>\<open>self.errors\<close> and \<^verbatim>\<open>self.warnings\<close> of a validator object.\<close>

record vstate =
  errors :: "msg list"
  warnings :: "msg list"

definition init_state :: vstate where
  "init_state = \<lparr>errors = [], warnings = []\<rparr>"

definition add_error :: "msg \<Rightarrow> vstate \<Rightarrow> vstate" where
  "add_error m s = s\<lparr>errors := errors s @ [m]\<rparr>"

definition add_warning :: "msg \<Rightarrow> vstate \<Rightarrow> vstate" where
  "add_warning m s = s\<lparr>warnings := warnings s @ [m]\<rparr>"

text \<open>
  A method either returns a value or raises; in both cases the findings appended so far
  stay on the validator object.
\<close>

datatype 'a outcome = Returned 'a vstate | Raised exc vstate

definition eval_then :: "exc + 'a \<Rightarrow> vstate \<Rightarrow> ('a \<Rightarrow> 'b outcome) \<Rightarrow> 'b outcome" where
  "eval_then r s f = (case r of Inl e \<Rightarrow> Raised e s | Inr x \<Rightarrow> f x)"

definition and_then :: "'a outcome \<Rightarrow> ('a \<Rightarrow> vstate \<Rightarrow> 'b outcome) \<Rightarrow> 'b outcome" where
  "and_then r f = (case r of Raised e s \<Rightarrow> Raised e s | Returned x s \<Rightarrow> f x s)"

text \<open>What the library calls of the source compute is a parameter of the model.\<close>

record env =
  fromisoformat :: "string \<Rightarrow> int option"
  strptime_ymd :: "string \<Rightarrow> int option"
  now :: int
  float_of_str :: "string \<Rightarrow> rat option"
  int_of_str :: "string \<Rightarrow> int option"

subsection \<open>Operations of Python used by the rules\<close>

fun truthy :: "pyval \<Rightarrow> bool" where
  "truthy PNone = False"
| "truthy (PBool b) = b"
| "truthy (PInt i) = (i \<noteq> 0)"
| "truthy (PFloat r) = (r \<noteq> 0)"
| "truthy (PStr s) = (s \<noteq> [])"
| "truthy (PList xs) = (xs \<noteq> [])"
| "truthy (PDict kvs) = (kvs \<noteq> [])"

text \<open>\<^verbatim>\<open>d.get(k, default)\<close>: only a dictionary has the method.\<close>

fun py_get :: "pyval \<Rightarrow> string \<Rightarrow> pyval \<Rightarrow> exc + pyval" where
  "py_get (PDict kvs) k dflt = Inr (case map_of kvs k of None \<Rightarrow> dflt | Some v \<Rightarrow> v)"
| "py_get _ k dflt = Inl AttributeError"

fun py_len :: "pyval \<Rightarrow> exc + nat" where
  "py_len (PStr s) = Inr (length s)"
| "py_len (PList xs) = Inr (length xs)"
| "py_len (PDict kvs) = Inr (length kvs)"
| "py_len _ = Inl TypeError"

fun is_substring :: "string \<Rightarrow> string \<Rightarrow> bool" where
  "is_substring k [] = (k = [])"
| "is_substring k (c # cs) = (take (length k) (c # cs) = k \<or> is_substring k cs)"

text \<open>\<^verbatim>\<open>k in x\<close> for a string \<open>k\<close>: a key of a dictionary, an element of a list, a
  substring of a string; anything else is not iterable.\<close>

fun py_in :: "string \<Rightarrow> pyval \<Rightarrow> exc + bool" where
  "py_in k (PDict kvs) = Inr (k \<in> set (map fst kvs))"
| "py_in k (PList xs) = Inr (PStr k \<in> set xs)"
| "py_in k (PStr s) = Inr (is_substring k s)"
| "py_in k _ = Inl TypeError"

text \<open>\<^verbatim>\<open>x[k]\<close> for a string \<open>k\<close>.\<close>

fun py_getitem :: "pyval \<Rightarrow> string \<Rightarrow> exc + pyval" where
  "py_getitem (PDict kvs) k = (case map_of kvs k of None \<Rightarrow> Inl KeyError | Some v \<Rightarrow> Inr v)"
| "py_getitem _ k = Inl TypeError"

text \<open>Iteration (\<^verbatim>\<open>for x in v\<close>): a dictionary yields its keys, a string its characters.\<close>

fun py_iter :: "pyval \<Rightarrow> exc + pyval list" where
  "py_iter (PList xs) = Inr xs"
| "py_iter (PDict kvs) = Inr (map (\<lambda>kv. PStr (fst kv)) kvs)"
| "py_iter (PStr s) = Inr (map (\<lambda>c. PStr [c]) s)"
| "py_iter _ = Inl TypeError"

text \<open>\<^verbatim>\<open>float(x)\<close> and \<^verbatim>\<open>int(x)\<close>.\<close>

fun py_float :: "env \<Rightarrow> pyval \<Rightarrow> exc + rat" where
  "py_float E (PInt i) = Inr (of_int i)"
| "py_float E (PFloat r) = Inr r"
| "py_float E (PBool b) = Inr (if b then 1 else 0)"
| "py_float E (PStr s) = (case float_of_str E s of None \<Rightarrow> Inl ValueError | Some r \<Rightarrow> Inr r)"
| "py_float E _ = Inl TypeError"

fun py_int :: "env \<Rightarrow> pyval \<Rightarrow> exc + int" where
  "py_int E (PInt i) = Inr i"
| "py_int E (PFloat r) = Inr (if 0 \<le> r then \<lfloor>r\<rfloor> else \<lceil>r\<rceil>)"
| "py_int E (PBool b) = Inr (if b then 1 else 0)"
| "py_int E (PStr s) = (case int_of_str E s of None \<Rightarrow> Inl ValueError | Some i \<Rightarrow> Inr i)"
| "py_int E _ = Inl TypeError"

text \<open>Numbers: \<^verbatim>\<open>bool\<close> is a subclass of \<^verbatim>\<open>int\<close>.\<close>

fun int_like :: "pyval \<Rightarrow> int option" where
  "int_like (PInt i) = Some i"
| "int_like (PBool b) = Some (if b then 1 else 0)"
| "int_like _ = None"

fun number :: "pyval \<Rightarrow> rat option" where
  "number (PInt i) = Some (of_int i)"
| "number (PBool b) = Some (if b then 1 else 0)"
| "number (PFloat r) = Some r"
| "number _ = None"

definition isinstance_int_float :: "pyval \<Rightarrow> bool" where
  "isinstance_int_float v = (number v \<noteq> None)"

text \<open>\<^verbatim>\<open>a * b\<close>: integers stay integers, a float makes a float, an integer repeats a
  string or a list.\<close>

definition py_mul :: "pyval \<Rightarrow> pyval \<Rightarrow> exc + pyval" where
  "py_mul a b =
     (case (int_like a, int_like b) of
        (Some i, Some j) \<Rightarrow> Inr (PInt (i * j))
      | (Some i, None) \<Rightarrow>
          (case b of
             PFloat r \<Rightarrow> Inr (PFloat (of_int i * r))
           | PStr s \<Rightarrow> Inr (PStr (concat (replicate (nat i) s)))
           | PList xs \<Rightarrow> Inr (PList (concat (replicate (nat i) xs)))
           | _ \<Rightarrow> Inl TypeError)
      | (None, Some j) \<Rightarrow>
          (case a of
             PFloat r \<Rightarrow> Inr (PFloat (r * of_int j))
           | PStr s \<Rightarrow> Inr (PStr (concat (replicate (nat j) s)))
           | PList xs \<Rightarrow> Inr (PList (concat (replicate (nat j) xs)))
           | _ \<Rightarrow> Inl TypeError)
      | (None, None) \<Rightarrow>
          (case (a, b) of
             (PFloat r, PFloat q) \<Rightarrow> Inr (PFloat (r * q))
           | _ \<Rightarrow> Inl TypeError))"

text \<open>\<^verbatim>\<open>a - b\<close> and \<^verbatim>\<open>a + b\<close> as the rules use them (\<open>+\<close> only inside \<^verbatim>\<open>sum\<close>, whose
  left operand is a number).\<close>

definition py_sub :: "pyval \<Rightarrow> pyval \<Rightarrow> exc + pyval" where
  "py_sub a b =
     (case (int_like a, int_like b) of
        (Some i, Some j) \<Rightarrow> Inr (PInt (i - j))
      | _ \<Rightarrow> (case (number a, number b) of
                (Some r, Some q) \<Rightarrow> Inr (PFloat (r - q))
              | _ \<Rightarrow> Inl TypeError))"

definition py_add :: "pyval \<Rightarrow> pyval \<Rightarrow> exc + pyval" where
  "py_add a b =
     (case (int_like a, int_like b) of
        (Some i, Some j) \<Rightarrow> Inr (PInt (i + j))
      | _ \<Rightarrow> (case (number a, number b) of
                (Some r, Some q) \<Rightarrow> Inr (PFloat (r + q))
              | _ \<Rightarrow> Inl TypeError))"

definition py_abs :: "pyval \<Rightarrow> exc + pyval" where
  "py_abs a =
     (case int_like a of
        Some i \<Rightarrow> Inr (PInt \<bar>i\<bar>)
      | None \<Rightarrow> (case a of PFloat r \<Rightarrow> Inr (PFloat \<bar>r\<bar>) | _ \<Rightarrow> Inl TypeError))"

text \<open>Comparison of a value with a numeric constant: \<^verbatim>\<open>a < c\<close>, \<^verbatim>\<open>a <= c\<close>, \<^verbatim>\<open>a > c\<close>.\<close>

definition py_lt :: "pyval \<Rightarrow> rat \<Rightarrow> exc + bool" where
  "py_lt a c = (case number a of None \<Rightarrow> Inl TypeError | Some r \<Rightarrow> Inr (r < c))"

definition py_le :: "pyval \<Rightarrow> rat \<Rightarrow> exc + bool" where
  "py_le a c = (case number a of None \<Rightarrow> Inl TypeError | Some r \<Rightarrow> Inr (r \<le> c))"

definition py_gt :: "pyval \<Rightarrow> rat \<Rightarrow> exc + bool" where
  "py_gt a c = (case number a of None \<Rightarrow> Inl TypeError | Some r \<Rightarrow> Inr (r > c))"

text \<open>\<^verbatim>\<open>s.replace('Z', '+00:00')\<close>, \<^verbatim>\<open>s.isdigit()\<close>, \<^verbatim>\<open>s.startswith(p)\<close> and
  \<^verbatim>\<open>s.strip()\<close> on ASCII strings.\<close>

definition replace_Z :: "string \<Rightarrow> string" where
  "replace_Z s = concat (map (\<lambda>c. if c = CHR ''Z'' then ''+00:00'' else [c]) s)"

definition is_digit :: "char \<Rightarrow> bool" where
  "is_digit c = (c \<in> set ''0123456789'')"

definition isdigit :: "string \<Rightarrow> bool" where
  "isdigit s = (s \<noteq> [] \<and> list_all is_digit s)"

definition startswith :: "string \<Rightarrow> string \<Rightarrow> bool" where
  "startswith s p = (take (length p) s = p)"

definition is_space :: "char \<Rightarrow> bool" where
  "is_space c = (c \<in> set [CHR '' '', CHR 0x09, CHR 0x0A, CHR 0x0B, CHR 0x0C, CHR 0x0D,
                           CHR 0x1C, CHR 0x1D, CHR 0x1E, CHR 0x1F])"

definition strip :: "string \<Rightarrow> string" where
  "strip s = rev (dropWhile is_space (rev (dropWhile is_space s)))"

section \<open>The JSON validator\<close>

subsection \<open>\<^verbatim>\<open>JSONReceiptValidator.validate_business_rules\<close>\<close>

text \<open>
  Each rule takes the local \<^verbatim>\<open>is_valid\<close> and the validator's findings and gives them
  back. A rule reads \<^verbatim>\<open>self.json_data\<close> with the same expressions as the source; where the
  source keeps a value in a local variable across rules (\<^verbatim>\<open>items\<close>, \<^verbatim>\<open>customer\<close>) the
  model passes it on or evaluates the same expression again.
\<close>

text \<open>Rule 1: minimum 5 items required.\<close>

definition json_rule1 :: "pyval \<Rightarrow> bool \<Rightarrow> vstate \<Rightarrow> bool outcome" where
  "json_rule1 items is_valid s =
     eval_then (py_len items) s (\<lambda>items_count.
       if items_count < 5
       then Returned False
              (add_error [Lit ''Receipt must contain at least 5 items. Found: '',
                          Val (PInt (int items_count))] s)
       else Returned is_valid
              (add_warning [Lit ''Item count validation passed: '',
                            Val (PInt (int items_count)), Lit '' items''] s))"

text \<open>Rule 2: the purchase date is not in the future. Only \<^verbatim>\<open>ValueError\<close> is caught.\<close>

definition json_rule2 :: "env \<Rightarrow> pyval \<Rightarrow> bool \<Rightarrow> vstate \<Rightarrow> bool outcome" where
  "json_rule2 E d is_valid s =
     eval_then (py_get d ''purchase_date'' PNone) s (\<lambda>purchase_date.
       if truthy purchase_date
       then (case purchase_date of
               PStr p \<Rightarrow>
                 (case fromisoformat E (replace_Z p) of
                    None \<Rightarrow>
                      Returned False
                        (add_error [Lit ''Invalid date format: '', ExcText ValueError] s)
                  | Some purchase_dt \<Rightarrow>
                      if purchase_dt > now E
                      then Returned False
                             (add_error [Lit ''Purchase date cannot be in the future''] s)
                      else Returned is_valid s)
             | _ \<Rightarrow> Raised AttributeError s)
       else Returned is_valid s)"

text \<open>Rule 3: the header total against the pricing section's grand total.\<close>

definition json_rule3 :: "env \<Rightarrow> pyval \<Rightarrow> bool \<Rightarrow> vstate \<Rightarrow> bool outcome" where
  "json_rule3 E d is_valid s =
     eval_then (py_get d ''total_amount'' (PInt 0)) s (\<lambda>ta.
     eval_then (py_float E ta) s (\<lambda>total_amount.
     eval_then (py_get d ''pricing'' (PDict [])) s (\<lambda>pricing.
     eval_then (py_in ''grand_total'' pricing) s (\<lambda>present.
       if present
       then eval_then (py_getitem pricing ''grand_total'') s (\<lambda>gt.
            eval_then (py_float E gt) s (\<lambda>calculated_total.
              if \<bar>total_amount - calculated_total\<bar> > 1 / 100
              then Returned False
                     (add_error [Lit ''Total amount mismatch. Header: '',
                                 Val (PFloat total_amount), Lit '', Pricing: '',
                                 Val (PFloat calculated_total)] s)
              else Returned is_valid s))
       else Returned is_valid s))))"

text \<open>Rule 4: the body of the loop over \<^verbatim>\<open>enumerate(items)\<close>, then the loop.\<close>

definition json_check_item :: "nat \<Rightarrow> pyval \<Rightarrow> bool \<Rightarrow> vstate \<Rightarrow> bool outcome" where
  "json_check_item i item is_valid s =
     eval_then (py_get item ''quantity'' (PInt 0)) s (\<lambda>quantity.
     eval_then (py_get item ''unit_price'' (PInt 0)) s (\<lambda>unit_price.
     eval_then (py_get item ''subtotal'' (PInt 0)) s (\<lambda>subtotal.
       let bad_quantity = (case int_like quantity of None \<Rightarrow> True | Some q \<Rightarrow> q \<le> 0);
           s1 = (if bad_quantity
                 then add_error [Lit ''Item '', Val (PInt (int i + 1)),
                                 Lit '': Quantity must be positive integer. Found: '',
                                 Val quantity] s
                 else s);
           v1 = (if bad_quantity then False else is_valid);
           bad_price = (case number unit_price of None \<Rightarrow> True | Some p \<Rightarrow> p < 0);
           s2 = (if bad_price
                 then add_error [Lit ''Item '', Val (PInt (int i + 1)),
                                 Lit '': Unit price cannot be negative. Found: '',
                                 Val unit_price] s1
                 else s1);
           v2 = (if bad_price then False else v1)
       in eval_then (py_mul quantity unit_price) s2 (\<lambda>expected_subtotal.
          eval_then (py_sub subtotal expected_subtotal) s2 (\<lambda>diff.
          eval_then (py_abs diff) s2 (\<lambda>adiff.
          eval_then (py_gt adiff (1 / 100)) s2 (\<lambda>off.
            if off
            then Returned False
                   (add_error [Lit ''Item '', Val (PInt (int i + 1)),
                               Lit '': Subtotal calculation error. Expected: '',
                               Val expected_subtotal, Lit '', Found: '', Val subtotal] s2)
            else Returned v2 s2)))))))"

fun json_items_loop :: "nat \<Rightarrow> pyval list \<Rightarrow> bool \<Rightarrow> vstate \<Rightarrow> bool outcome" where
  "json_items_loop i [] is_valid s = Returned is_valid s"
| "json_items_loop i (item # rest) is_valid s =
     and_then (json_check_item i item is_valid s) (json_items_loop (Suc i) rest)"

definition json_rule4 :: "pyval \<Rightarrow> bool \<Rightarrow> vstate \<Rightarrow> bool outcome" where
  "json_rule4 items is_valid s =
     eval_then (py_iter items) s (\<lambda>xs. json_items_loop 0 xs is_valid s)"

text \<open>Rule 5: a loyalty member has a \<^verbatim>\<open>member_since\<close> date (a warning).\<close>

definition json_rule5 :: "pyval \<Rightarrow> bool \<Rightarrow> vstate \<Rightarrow> bool outcome" where
  "json_rule5 d is_valid s =
     eval_then (py_get d ''customer'' (PDict [])) s (\<lambda>customer.
     eval_then (py_get customer ''loyalty_member'' PNone) s (\<lambda>loyalty_member.
       if truthy loyalty_member
       then eval_then (py_get customer ''member_since'' PNone) s (\<lambda>member_since.
              if \<not> truthy member_since
              then Returned is_valid
                     (add_warning [Lit ''Loyalty member should have member_since date''] s)
              else Returned is_valid s)
       else Returned is_valid s))"

text \<open>Rule 6: the e-mail address contains \<^verbatim>\<open>@\<close>.\<close>

definition json_rule6 :: "pyval \<Rightarrow> bool \<Rightarrow> vstate \<Rightarrow> bool outcome" where
  "json_rule6 d is_valid s =
     eval_then (py_get d ''customer'' (PDict [])) s (\<lambda>customer.
     eval_then (py_get customer ''email'' (PStr [])) s (\<lambda>email.
       if truthy email
       then eval_then (py_in ''@'' email) s (\<lambda>has_at.
              if \<not> has_at
              then Returned False (add_error [Lit ''Invalid email format: '', Val email] s)
              else Returned is_valid s)
       else Returned is_valid s))"

text \<open>
  Rule 7: a credit card payment names the card. The format test is the source's
  \<^verbatim>\<open>card_number and not card_number.isdigit() or len(card_number) != 4\<close>, which Python
  reads as \<^verbatim>\<open>(card_number and not card_number.isdigit()) or (len(card_number) != 4)\<close>.
\<close>

definition card_number_bad :: "pyval \<Rightarrow> exc + bool" where
  "card_number_bad card_number =
     (if truthy card_number
      then (case card_number of
              PStr c \<Rightarrow> if \<not> isdigit c then Inr True
                        else (case py_len card_number of Inl e \<Rightarrow> Inl e | Inr n \<Rightarrow> Inr (n \<noteq> 4))
            | _ \<Rightarrow> Inl AttributeError)
      else (case py_len card_number of Inl e \<Rightarrow> Inl e | Inr n \<Rightarrow> Inr (n \<noteq> 4)))"

definition json_rule7 :: "pyval \<Rightarrow> bool \<Rightarrow> vstate \<Rightarrow> bool outcome" where
  "json_rule7 d is_valid s =
     eval_then (py_get d ''payment_method'' PNone) s (\<lambda>payment_method.
     eval_then (py_get d ''payment'' (PDict [])) s (\<lambda>payment.
       if payment_method = PStr ''Credit Card''
       then eval_then (py_get payment ''card_type'' PNone) s (\<lambda>card_type.
            eval_then (py_get payment ''card_number_last_four'' PNone) s (\<lambda>last_four.
              let missing = (\<not> truthy card_type \<or> \<not> truthy last_four);
                  s1 = (if missing
                        then add_error
                               [Lit ''Credit Card payment requires card_type and card_number_last_four''] s
                        else s);
                  v1 = (if missing then False else is_valid)
              in eval_then (py_get payment ''card_number_last_four'' (PStr [])) s1 (\<lambda>card_number.
                 eval_then (card_number_bad card_number) s1 (\<lambda>bad.
                   if bad
                   then Returned False
                          (add_error [Lit ''Card number last four must be 4 digits. Found: '',
                                      Val card_number] s1)
                   else Returned v1 s1))))
       else Returned is_valid s))"

text \<open>Rule 8: the digital signature names its algorithm and carries a signature.\<close>

definition json_rule8 :: "pyval \<Rightarrow> bool \<Rightarrow> vstate \<Rightarrow> bool outcome" where
  "json_rule8 d is_valid s =
     eval_then (py_get d ''digital_signature'' (PDict [])) s (\<lambda>digital_sig.
     eval_then (py_get digital_sig ''algorithm'' PNone) s (\<lambda>algorithm.
     eval_then (py_get digital_sig ''signature'' PNone) s (\<lambda>signature.
       if \<not> truthy algorithm \<or> \<not> truthy signature
       then Returned False
              (add_error [Lit ''Digital signature must include algorithm and signature''] s)
       else Returned is_valid s)))"

text \<open>Rule 9: every price is non-negative (an error) and not above 100000 (a warning).\<close>

fun collect_prices :: "pyval list \<Rightarrow> exc + pyval list" where
  "collect_prices [] = Inr []"
| "collect_prices (item # rest) =
     (case py_get item ''unit_price'' (PInt 0) of
        Inl e \<Rightarrow> Inl e
      | Inr unit_price \<Rightarrow>
          (case py_get item ''subtotal'' (PInt 0) of
             Inl e \<Rightarrow> Inl e
           | Inr subtotal \<Rightarrow>
               (case collect_prices rest of
                  Inl e \<Rightarrow> Inl e
                | Inr ps \<Rightarrow> Inr (unit_price # subtotal # ps))))"

definition pricing_prices :: "pyval \<Rightarrow> exc + pyval list" where
  "pricing_prices pricing_section =
     (case py_in ''subtotal'' pricing_section of
        Inl e \<Rightarrow> Inl e
      | Inr has_subtotal \<Rightarrow>
          (case (if has_subtotal
                 then (case py_getitem pricing_section ''subtotal'' of
                         Inl e \<Rightarrow> Inl e | Inr x \<Rightarrow> Inr [x])
                 else Inr []) of
             Inl e \<Rightarrow> Inl e
           | Inr ps1 \<Rightarrow>
               (case py_in ''grand_total'' pricing_section of
                  Inl e \<Rightarrow> Inl e
                | Inr has_total \<Rightarrow>
                    if has_total
                    then (case py_getitem pricing_section ''grand_total'' of
                            Inl e \<Rightarrow> Inl e | Inr x \<Rightarrow> Inr (ps1 @ [x]))
                    else Inr ps1)))"

fun price_loop :: "pyval list \<Rightarrow> bool \<Rightarrow> vstate \<Rightarrow> bool outcome" where
  "price_loop [] is_valid s = Returned is_valid s"
| "price_loop (price # rest) is_valid s =
     eval_then (py_lt price 0) s (\<lambda>negative.
       if negative
       then price_loop rest False (add_error [Lit ''Price cannot be negative: '', Val price] s)
       else eval_then (py_gt price 100000) s (\<lambda>high.
              if high
              then price_loop rest is_valid
                     (add_warning [Lit ''Unusually high price: '', Val price] s)
              else price_loop rest is_valid s))"

definition json_rule9 :: "pyval \<Rightarrow> pyval \<Rightarrow> bool \<Rightarrow> vstate \<Rightarrow> bool outcome" where
  "json_rule9 d items is_valid s =
     eval_then (py_iter items) s (\<lambda>xs.
     eval_then (collect_prices xs) s (\<lambda>item_prices.
     eval_then (py_get d ''pricing'' (PDict [])) s (\<lambda>pricing_section.
     eval_then (pricing_prices pricing_section) s (\<lambda>more.
       price_loop (item_prices @ more) is_valid s))))"

text \<open>Rule 10: the required top-level fields are present.\<close>

definition required_fields :: "string list" where
  "required_fields = [''receipt_id'', ''purchase_date'', ''store_name'', ''customer'', ''store'',
                      ''items'', ''payment'', ''transaction'', ''footer'']"

fun required_loop :: "pyval \<Rightarrow> string list \<Rightarrow> bool \<Rightarrow> vstate \<Rightarrow> bool outcome" where
  "required_loop d [] is_valid s = Returned is_valid s"
| "required_loop d (field # rest) is_valid s =
     eval_then (py_in field d) s (\<lambda>present.
       if \<not> present
       then required_loop d rest False
              (add_error [Lit ''Required field missing: '', Lit field] s)
       else required_loop d rest is_valid s)"

definition json_rule10 :: "pyval \<Rightarrow> bool \<Rightarrow> vstate \<Rightarrow> bool outcome" where
  "json_rule10 d is_valid s = required_loop d required_fields is_valid s"

definition json_validate_business_rules :: "env \<Rightarrow> pyval \<Rightarrow> vstate \<Rightarrow> bool outcome" where
  "json_validate_business_rules E d s =
     (if \<not> truthy d
      then Returned False
             (add_error [Lit ''No JSON data loaded for business rule validation''] s)
      else eval_then (py_get d ''items'' (PList [])) s (\<lambda>items.
           and_then (json_rule1 items True s) (\<lambda>v1 s1.
           and_then (json_rule2 E d v1 s1) (\<lambda>v2 s2.
           and_then (json_rule3 E d v2 s2) (\<lambda>v3 s3.
           and_then (json_rule4 items v3 s3) (\<lambda>v4 s4.
           and_then (json_rule5 d v4 s4) (\<lambda>v5 s5.
           and_then (json_rule6 d v5 s5) (\<lambda>v6 s6.
           and_then (json_rule7 d v6 s6) (\<lambda>v7 s7.
           and_then (json_rule8 d v7 s7) (\<lambda>v8 s8.
           and_then (json_rule9 d items v8 s8) (\<lambda>v9 s9.
             json_rule10 d v9 s9)))))))))))"

subsection \<open>\<^verbatim>\<open>validate_schema\<close>, \<^verbatim>\<open>validate_data_types\<close> and \<^verbatim>\<open>calculate_totals\<close>\<close>

text \<open>
  What opening the schema file and \<^verbatim>\<open>jsonschema.validate\<close> do is an input of the run: the
  document conforms, a \<^verbatim>\<open>ValidationError\<close> with its message and path is raised, or any
  other exception is raised (an unreadable schema file, for one).
\<close>

datatype schema_result = SchemaValid | SchemaInvalid string "string list" | SchemaFailed string

fun join_path :: "string list \<Rightarrow> string" where
  "join_path [] = []"
| "join_path [p] = p"
| "join_path (p # q # ps) = p @ '' -> '' @ join_path (q # ps)"

definition json_validate_schema :: "bool \<Rightarrow> pyval \<Rightarrow> schema_result \<Rightarrow> vstate \<Rightarrow> bool \<times> vstate" where
  "json_validate_schema jsonschema_available d r s =
     (if \<not> jsonschema_available
      then (False, add_error [Lit ''JSON Schema validation requires jsonschema library''] s)
      else if \<not> truthy d
      then (False, add_error [Lit ''No JSON data loaded for schema validation''] s)
      else (case r of
              SchemaValid \<Rightarrow> (True, s)
            | SchemaInvalid message path \<Rightarrow>
                (let s1 = add_error [Lit ''Schema validation error: '', Lit message] s
                 in (False, if path \<noteq> []
                            then add_error [Lit ''  At path: '', Lit (join_path path)] s1
                            else s1))
            | SchemaFailed message \<Rightarrow>
                (False, add_error [Lit ''Schema validation failed: '', Lit message] s)))"

fun type_name :: "pyval \<Rightarrow> string" where
  "type_name PNone = ''NoneType''"
| "type_name (PBool b) = ''bool''"
| "type_name (PInt i) = ''int''"
| "type_name (PFloat r) = ''float''"
| "type_name (PStr s) = ''str''"
| "type_name (PList xs) = ''list''"
| "type_name (PDict kvs) = ''dict''"

text \<open>The loops over \<^verbatim>\<open>numeric_fields\<close> and \<^verbatim>\<open>date_fields\<close> have one field each.\<close>

definition json_validate_data_types :: "env \<Rightarrow> pyval \<Rightarrow> vstate \<Rightarrow> bool outcome" where
  "json_validate_data_types E d s =
     (if \<not> truthy d
      then Returned False (add_error [Lit ''No JSON data loaded for data type validation''] s)
      else eval_then (py_get d ''receipt_id'' (PStr [])) s (\<lambda>receipt_id.
        let odd_id = (case receipt_id of PStr r \<Rightarrow> \<not> startswith r ''RCPT_'' | _ \<Rightarrow> True);
            s1 = (if odd_id
                  then add_warning [Lit ''Receipt ID format may be incorrect: '', Val receipt_id] s
                  else s)
        in eval_then (py_get d ''total_amount'' PNone) s1 (\<lambda>amount.
        let not_numeric = (amount \<noteq> PNone \<and> \<not> isinstance_int_float amount);
            s2 = (if not_numeric
                  then add_error [Lit (''Field '' @ [CHR 0x27]), Lit ''total_amount'',
                                  Lit (CHR 0x27 # '' must be numeric. Found: ''),
                                  Lit (type_name amount)] s1
                  else s1);
            v2 = (\<not> not_numeric)
        in eval_then (py_get d ''purchase_date'' PNone) s2 (\<lambda>date.
          if date \<noteq> PNone
          then (case date of
                  PStr p \<Rightarrow>
                    (case fromisoformat E (replace_Z p) of
                       None \<Rightarrow>
                         Returned False
                           (add_error [Lit (''Field '' @ [CHR 0x27]), Lit ''purchase_date'',
                                       Lit (CHR 0x27 # '' must be valid ISO date. Found: ''),
                                       Val date] s2)
                     | Some dt \<Rightarrow> Returned v2 s2)
                | _ \<Rightarrow> Raised AttributeError s2)
          else Returned v2 s2))))"

record totals =
  calculated_subtotal :: pyval
  taxable_subtotal :: pyval
  item_count :: nat

definition bind_exc :: "exc + 'a \<Rightarrow> ('a \<Rightarrow> exc + 'b) \<Rightarrow> exc + 'b" where
  "bind_exc r f = (case r of Inl e \<Rightarrow> Inl e | Inr x \<Rightarrow> f x)"

text \<open>\<^verbatim>\<open>sum(...)\<close> starts from the integer 0 and adds one generated value at a time.\<close>

fun sum_subtotals :: "pyval \<Rightarrow> pyval list \<Rightarrow> exc + pyval" where
  "sum_subtotals acc [] = Inr acc"
| "sum_subtotals acc (item # rest) =
     bind_exc (py_get item ''subtotal'' (PInt 0)) (\<lambda>x.
     bind_exc (py_add acc x) (\<lambda>acc'. sum_subtotals acc' rest))"

fun sum_taxable :: "pyval \<Rightarrow> pyval list \<Rightarrow> exc + pyval" where
  "sum_taxable acc [] = Inr acc"
| "sum_taxable acc (item # rest) =
     bind_exc (py_get item ''tax_applied'' (PBool False)) (\<lambda>tax_applied.
       if truthy tax_applied
       then bind_exc (py_get item ''subtotal'' (PInt 0)) (\<lambda>x.
            bind_exc (py_add acc x) (\<lambda>acc'. sum_taxable acc' rest))
       else sum_taxable acc rest)"

definition calculate_totals :: "pyval \<Rightarrow> exc + totals" where
  "calculate_totals d =
     bind_exc (py_get d ''items'' (PList [])) (\<lambda>items.
     bind_exc (py_iter items) (\<lambda>xs.
     bind_exc (sum_subtotals (PInt 0) xs) (\<lambda>subtotal.
     bind_exc (sum_taxable (PInt 0) xs) (\<lambda>taxable.
     bind_exc (py_len items) (\<lambda>n.
       Inr \<lparr>calculated_subtotal = subtotal, taxable_subtotal = taxable, item_count = n\<rparr>)))))"

subsection \<open>\<^verbatim>\<open>JSONReceiptValidator.generate_report\<close>\<close>

text \<open>What \<^verbatim>\<open>load_json\<close> finds in the file: a JSON value, a \<^verbatim>\<open>JSONDecodeError\<close> or
  another exception, each with its text.\<close>

datatype load_result = Loaded pyval | DecodeFailed string | LoadFailed string

record json_setup =
  json_file :: string
  schema_file :: "string option"
  jsonschema_available :: bool
  file_content :: load_result
  schema_outcome :: schema_result

text \<open>The report; the keys that the early return leaves out are \<open>None\<close>.\<close>

record schema_info =
  available :: bool
  schema_file_name :: "string option"
  valid :: "bool option"

record json_report =
  rp_file :: string
  rp_timestamp :: int
  rp_schema_validation :: "schema_info option"
  rp_business_rules_valid :: "bool option"
  rp_data_types_valid :: "bool option"
  rp_calculated_totals :: "totals option"
  rp_errors :: "msg list"
  rp_warnings :: "msg list"
  rp_overall_valid :: bool

definition json_generate_report :: "env \<Rightarrow> json_setup \<Rightarrow> vstate \<Rightarrow> json_report outcome" where
  "json_generate_report E J s0 =
     (case file_content J of
        DecodeFailed text \<Rightarrow>
          (let s = add_error [Lit ''JSON parsing error: '', Lit text] s0
           in Returned \<lparr>rp_file = json_file J, rp_timestamp = now E,
                 rp_schema_validation = None, rp_business_rules_valid = None,
                 rp_data_types_valid = None, rp_calculated_totals = None,
                 rp_errors = errors s, rp_warnings = warnings s, rp_overall_valid = False\<rparr> s)
      | LoadFailed text \<Rightarrow>
          (let s = add_error [Lit ''Error loading JSON file: '', Lit text] s0
           in Returned \<lparr>rp_file = json_file J, rp_timestamp = now E,
                 rp_schema_validation = None, rp_business_rules_valid = None,
                 rp_data_types_valid = None, rp_calculated_totals = None,
                 rp_errors = errors s, rp_warnings = warnings s, rp_overall_valid = False\<rparr> s)
      | Loaded d \<Rightarrow>
          (let with_schema = (case schema_file J of None \<Rightarrow> False | Some f \<Rightarrow> f \<noteq> []);
               schema_run = (if with_schema
                             then json_validate_schema (jsonschema_available J) d
                                    (schema_outcome J) s0
                             else (False, s0));
               schema_valid = (if with_schema then Some (fst schema_run) else None);
               s1 = snd schema_run
           in and_then (json_validate_business_rules E d s1) (\<lambda>content_valid s2.
              and_then (json_validate_data_types E d s2) (\<lambda>types_valid s3.
              eval_then (calculate_totals d) s3 (\<lambda>tot.
                Returned \<lparr>rp_file = json_file J, rp_timestamp = now E,
                   rp_schema_validation =
                     Some \<lparr>available = jsonschema_available J,
                           schema_file_name = schema_file J, valid = schema_valid\<rparr>,
                   rp_business_rules_valid = Some content_valid,
                   rp_data_types_valid = Some types_valid,
                   rp_calculated_totals = Some tot,
                   rp_errors = errors s3, rp_warnings = warnings s3,
                   rp_overall_valid = (length (errors s3) = 0)\<rparr> s3)))))"

section \<open>The XML validator\<close>

subsection \<open>\<^verbatim>\<open>xml_to_dict\<close>\<close>

text \<open>
  An element has a tag, attributes, the text before its first child and its children.
  \<^verbatim>\<open>xml_to_dict\<close> and \<^verbatim>\<open>lxml_to_dict\<close> are the same text line for line, so one function
  models both.
\<close>

datatype xml =
  Element (el_tag: string) (el_attrib: "(string \<times> string) list") (el_text: "string option")
    (el_children: "xml list")

text \<open>\<^verbatim>\<open>result[k] = v\<close>: a key that is there keeps its place, a new key goes last.\<close>

fun dict_set :: "string \<Rightarrow> pyval \<Rightarrow> (string \<times> pyval) list \<Rightarrow> (string \<times> pyval) list" where
  "dict_set k v [] = [(k, v)]"
| "dict_set k v (kv # kvs) = (if fst kv = k then (k, v) # kvs else kv # dict_set k v kvs)"

text \<open>One round of the loop over the children: a tag seen before turns its entry into a
  list (if it is not one yet) and appends to it.\<close>

definition add_child :: "(string \<times> pyval) list \<Rightarrow> string \<times> pyval \<Rightarrow> (string \<times> pyval) list" where
  "add_child result child =
     (case map_of result (fst child) of
        Some existing \<Rightarrow>
          (case existing of
             PList xs \<Rightarrow> dict_set (fst child) (PList (xs @ [snd child])) result
           | _ \<Rightarrow> dict_set (fst child) (PList [existing, snd child]) result)
      | None \<Rightarrow> dict_set (fst child) (snd child) result)"

definition stripped_text :: "string option \<Rightarrow> string option" where
  "stripped_text t =
     (case t of
        None \<Rightarrow> None
      | Some x \<Rightarrow> if x \<noteq> [] \<and> strip x \<noteq> [] then Some (strip x) else None)"

fun xml_to_dict :: "xml \<Rightarrow> pyval" where
  "xml_to_dict (Element tg attrs txt chs) =
     (let result = foldl (\<lambda>r kv. dict_set (CHR ''@'' # fst kv) (PStr (snd kv)) r) [] attrs
      in case stripped_text txt of
           Some t \<Rightarrow>
             if length chs = 0 then PStr t
             else PDict (foldl add_child (dict_set ''#text'' (PStr t) result)
                           (map (\<lambda>c. (el_tag c, xml_to_dict c)) chs))
         | None \<Rightarrow>
             PDict (foldl add_child result (map (\<lambda>c. (el_tag c, xml_to_dict c)) chs)))"

subsection \<open>\<^verbatim>\<open>XMLReceiptValidator.validate_business_rules\<close>\<close>

text \<open>Rule 1: minimum 5 items required.\<close>

definition xml_rule1 :: "pyval \<Rightarrow> bool \<Rightarrow> vstate \<Rightarrow> bool outcome" where
  "xml_rule1 xml_data is_valid s =
     eval_then (py_get xml_data ''items'' (PDict [])) s (\<lambda>items_node.
     eval_then (py_get items_node ''item'' (PList [])) s (\<lambda>item.
     eval_then (py_len item) s (\<lambda>items_count.
       if items_count < 5
       then Returned False
              (add_error [Lit ''Receipt must contain at least 5 items. Found: '',
                          Val (PInt (int items_count))] s)
       else Returned is_valid
              (add_warning [Lit ''Item count validation passed: '',
                            Val (PInt (int items_count)), Lit '' items''] s))))"

text \<open>Rule 2: the purchase date, read with \<^verbatim>\<open>strptime(purchase_date, '%Y-%m-%d')\<close>, which
  raises \<^verbatim>\<open>TypeError\<close> for anything but a string.\<close>

definition xml_rule2 :: "env \<Rightarrow> pyval \<Rightarrow> bool \<Rightarrow> vstate \<Rightarrow> bool outcome" where
  "xml_rule2 E xml_data is_valid s =
     eval_then (py_get xml_data ''purchase_date'' PNone) s (\<lambda>purchase_date.
       if truthy purchase_date
       then (case purchase_date of
               PStr p \<Rightarrow>
                 (case strptime_ymd E p of
                    None \<Rightarrow>
                      Returned False
                        (add_error [Lit ''Invalid date format. Expected YYYY-MM-DD''] s)
                  | Some purchase_dt \<Rightarrow>
                      if purchase_dt > now E
                      then Returned False
                             (add_error [Lit ''Purchase date cannot be in the future''] s)
                      else Returned is_valid s)
             | _ \<Rightarrow> Raised TypeError s)
       else Returned is_valid s)"

text \<open>Rule 3: the header total against the pricing section's grand total.\<close>

definition xml_rule3 :: "env \<Rightarrow> pyval \<Rightarrow> bool \<Rightarrow> vstate \<Rightarrow> bool outcome" where
  "xml_rule3 E xml_data is_valid s =
     eval_then (py_get xml_data ''total_amount'' (PInt 0)) s (\<lambda>ta.
     eval_then (py_float E ta) s (\<lambda>total_amount.
     eval_then (py_get xml_data ''pricing'' (PDict [])) s (\<lambda>items_pricing.
     eval_then (py_in ''grand_total'' items_pricing) s (\<lambda>present.
       if present
       then eval_then (py_getitem items_pricing ''grand_total'') s (\<lambda>gt.
            eval_then (py_float E gt) s (\<lambda>calculated_total.
              if \<bar>total_amount - calculated_total\<bar> > 1 / 100
              then Returned False
                     (add_error [Lit ''Total amount mismatch. Header: '',
                                 Val (PFloat total_amount), Lit '', Pricing: '',
                                 Val (PFloat calculated_total)] s)
              else Returned is_valid s))
       else Returned is_valid s))))"

text \<open>Rule 4: the items, each field converted with \<^verbatim>\<open>int\<close> or \<^verbatim>\<open>float\<close> first.\<close>

definition xml_check_item :: "env \<Rightarrow> nat \<Rightarrow> pyval \<Rightarrow> bool \<Rightarrow> vstate \<Rightarrow> bool outcome" where
  "xml_check_item E i item is_valid s =
     eval_then (py_get item ''quantity'' (PInt 0)) s (\<lambda>q0.
     eval_then (py_int E q0) s (\<lambda>quantity.
     eval_then (py_get item ''unit_price'' (PInt 0)) s (\<lambda>p0.
     eval_then (py_float E p0) s (\<lambda>unit_price.
     eval_then (py_get item ''subtotal'' (PInt 0)) s (\<lambda>s0.
     eval_then (py_float E s0) s (\<lambda>subtotal.
       let bad_quantity = (quantity \<le> 0);
           s1 = (if bad_quantity
                 then add_error [Lit ''Item '', Val (PInt (int i + 1)),
                                 Lit '': Quantity must be positive. Found: '',
                                 Val (PInt quantity)] s
                 else s);
           v1 = (if bad_quantity then False else is_valid);
           bad_price = (unit_price < 0);
           s2 = (if bad_price
                 then add_error [Lit ''Item '', Val (PInt (int i + 1)),
                                 Lit '': Unit price cannot be negative. Found: '',
                                 Val (PFloat unit_price)] s1
                 else s1);
           v2 = (if bad_price then False else v1);
           expected_subtotal = of_int quantity * unit_price
       in if \<bar>subtotal - expected_subtotal\<bar> > 1 / 100
          then Returned False
                 (add_error [Lit ''Item '', Val (PInt (int i + 1)),
                             Lit '': Subtotal calculation error. Expected: '',
                             Val (PFloat expected_subtotal), Lit '', Found: '',
                             Val (PFloat subtotal)] s2)
          else Returned v2 s2))))))"

fun xml_items_loop :: "env \<Rightarrow> nat \<Rightarrow> pyval list \<Rightarrow> bool \<Rightarrow> vstate \<Rightarrow> bool outcome" where
  "xml_items_loop E i [] is_valid s = Returned is_valid s"
| "xml_items_loop E i (item # rest) is_valid s =
     and_then (xml_check_item E i item is_valid s) (xml_items_loop E (Suc i) rest)"

definition xml_rule4 :: "env \<Rightarrow> pyval \<Rightarrow> bool \<Rightarrow> vstate \<Rightarrow> bool outcome" where
  "xml_rule4 E xml_data is_valid s =
     eval_then (py_get xml_data ''items'' (PDict [])) s (\<lambda>items_node.
     eval_then (py_get items_node ''item'' (PList [])) s (\<lambda>items.
     eval_then (py_iter items) s (\<lambda>xs. xml_items_loop E 0 xs is_valid s)))"

text \<open>Rule 5: a loyalty member has a \<^verbatim>\<open>member_since\<close> date (a warning).\<close>

definition xml_rule5 :: "pyval \<Rightarrow> bool \<Rightarrow> vstate \<Rightarrow> bool outcome" where
  "xml_rule5 xml_data is_valid s =
     eval_then (py_get xml_data ''customer'' (PDict [])) s (\<lambda>customer.
     eval_then (py_get customer ''loyalty_member'' PNone) s (\<lambda>loyalty_member.
       if truthy loyalty_member
       then eval_then (py_get customer ''member_since'' PNone) s (\<lambda>member_since.
              if \<not> truthy member_since
              then Returned is_valid
                     (add_warning [Lit ''Loyalty member should have member_since date''] s)
              else Returned is_valid s)
       else Returned is_valid s))"

text \<open>Rule 6: a credit card payment names the card.\<close>

definition xml_rule6 :: "pyval \<Rightarrow> bool \<Rightarrow> vstate \<Rightarrow> bool outcome" where
  "xml_rule6 xml_data is_valid s =
     eval_then (py_get xml_data ''payment_method'' PNone) s (\<lambda>payment_method.
     eval_then (py_get xml_data ''payment'' (PDict [])) s (\<lambda>payment.
       if payment_method = PStr ''Credit Card''
       then eval_then (py_get payment ''card_type'' PNone) s (\<lambda>card_type.
            eval_then (py_get payment ''card_number_last_four'' PNone) s (\<lambda>last_four.
              if \<not> truthy card_type \<or> \<not> truthy last_four
              then Returned False
                     (add_error
                        [Lit ''Credit Card payment requires card_type and card_number_last_four''] s)
              else Returned is_valid s))
       else Returned is_valid s))"

text \<open>Rule 7: the digital signature names its algorithm and carries a signature.\<close>

definition xml_rule7 :: "pyval \<Rightarrow> bool \<Rightarrow> vstate \<Rightarrow> bool outcome" where
  "xml_rule7 xml_data is_valid s =
     eval_then (py_get xml_data ''digital_signature'' (PDict [])) s (\<lambda>digital_sig.
     eval_then (py_get digital_sig ''algorithm'' PNone) s (\<lambda>algorithm.
     eval_then (py_get digital_sig ''signature'' PNone) s (\<lambda>signature.
       if \<not> truthy algorithm \<or> \<not> truthy signature
       then Returned False
              (add_error [Lit ''Digital signature must include algorithm and signature''] s)
       else Returned is_valid s)))"

definition xml_validate_business_rules :: "env \<Rightarrow> pyval \<Rightarrow> vstate \<Rightarrow> bool outcome" where
  "xml_validate_business_rules E xml_data s =
     and_then (xml_rule1 xml_data True s) (\<lambda>v1 s1.
     and_then (xml_rule2 E xml_data v1 s1) (\<lambda>v2 s2.
     and_then (xml_rule3 E xml_data v2 s2) (\<lambda>v3 s3.
     and_then (xml_rule4 E xml_data v3 s3) (\<lambda>v4 s4.
     and_then (xml_rule5 xml_data v4 s4) (\<lambda>v5 s5.
     and_then (xml_rule6 xml_data v5 s5) (\<lambda>v6 s6.
       xml_rule7 xml_data v6 s6))))))"

subsection \<open>\<^verbatim>\<open>validate_xml_content\<close>, \<^verbatim>\<open>validate_schema\<close> and \<^verbatim>\<open>generate_report\<close>\<close>

text \<open>What parsing the file gives: the root element, a \<^verbatim>\<open>ParseError\<close> or another
  exception, each with its text. Every exception of the business rules is caught by the
  method's outer handler.\<close>

datatype xml_load = XmlParsed xml | XmlParseError string | XmlLoadError string

datatype xsd_result = XsdValid | XsdInvalid "string list" | XsdFailed string

record xml_setup =
  xml_file :: string
  xsd_file :: string
  lxml_available :: bool
  xml_content :: xml_load
  xsd_outcome :: xsd_result

definition validate_xml_content :: "env \<Rightarrow> xml_setup \<Rightarrow> vstate \<Rightarrow> bool \<times> vstate" where
  "validate_xml_content E X s =
     (case xml_content X of
        XmlParseError text \<Rightarrow>
          (if \<not> lxml_available X
           then (False, add_error [Lit ''XML parsing error: '', Lit text] s)
           else (False, add_error [Lit ''XML content validation failed: '', Lit text] s))
      | XmlLoadError text \<Rightarrow>
          (False, add_error [Lit ''XML content validation failed: '', Lit text] s)
      | XmlParsed root_el \<Rightarrow>
          (case xml_validate_business_rules E (xml_to_dict root_el) s of
             Returned v s' \<Rightarrow> (v, s')
           | Raised e s' \<Rightarrow>
               (False, add_error [Lit ''XML content validation failed: '', ExcText e] s')))"

definition xml_validate_schema :: "xml_setup \<Rightarrow> vstate \<Rightarrow> bool \<times> vstate" where
  "xml_validate_schema X s =
     (if \<not> lxml_available X
      then (False, add_error [Lit ''XSD validation requires lxml library''] s)
      else (case xsd_outcome X of
              XsdValid \<Rightarrow> (True, s)
            | XsdInvalid error_log \<Rightarrow>
                (False, foldl (\<lambda>s' error. add_error [Lit ''Schema validation error: '', Lit error] s')
                          s error_log)
            | XsdFailed text \<Rightarrow>
                (False, add_error [Lit ''Schema validation failed: '', Lit text] s)))"

record xml_report =
  xr_file :: string
  xr_timestamp :: int
  xr_schema_valid :: "bool option"
  xr_content_valid :: bool
  xr_errors :: "msg list"
  xr_warnings :: "msg list"
  xr_overall_valid :: bool

definition xml_generate_report :: "env \<Rightarrow> xml_setup \<Rightarrow> vstate \<Rightarrow> xml_report \<times> vstate" where
  "xml_generate_report E X s0 =
     (let schema_run = (if lxml_available X then xml_validate_schema X s0 else (False, s0));
          schema_valid = (if lxml_available X then Some (fst schema_run) else None);
          content_run = validate_xml_content E X (snd schema_run);
          s = snd content_run
      in (\<lparr>xr_file = xml_file X, xr_timestamp = now E, xr_schema_valid = schema_valid,
           xr_content_valid = fst content_run, xr_errors = errors s, xr_warnings = warnings s,
           xr_overall_valid = (length (errors s) = 0)\<rparr>, s))"

section \<open>Reading outcomes and findings\<close>

fun returned :: "'a outcome \<Rightarrow> 'a option" where
  "returned (Returned x s) = Some x"
| "returned (Raised e s) = None"

fun final_state :: "'a outcome \<Rightarrow> vstate" where
  "final_state (Returned x s) = s"
| "final_state (Raised e s) = s"

text \<open>The findings of \<open>s'\<close> start with those of \<open>s\<close>: nothing was removed or changed.\<close>

definition extends :: "vstate \<Rightarrow> vstate \<Rightarrow> bool" where
  "extends s s' = (prefix (errors s) (errors s') \<and> prefix (warnings s) (warnings s'))"






abbreviation min_items_msg :: "nat \<Rightarrow> msg" where
  "min_items_msg n \<equiv> [Lit ''Receipt must contain at least 5 items. Found: '', Val (PInt (int n))]"

abbreviation items_passed_msg :: "nat \<Rightarrow> msg" where
  "items_passed_msg n \<equiv> [Lit ''Item count validation passed: '', Val (PInt (int n)), Lit '' items'']"

text \<open>
  \<^verbatim>\<open>main()\<close> of the JSON validator with \<^verbatim>\<open>--json-report\<close>: \<^verbatim>\<open>print_report()\<close> calls
  \<^verbatim>\<open>generate_report()\<close> on the new validator, then \<^verbatim>\<open>generate_report()\<close> is called again
  on the same object for the report that is saved.
\<close>

definition json_main_reports :: "env \<Rightarrow> json_setup \<Rightarrow> (json_report \<times> json_report) outcome" where
  "json_main_reports E J =
     and_then (json_generate_report E J init_state) (\<lambda>printed s1.
     and_then (json_generate_report E J s1) (\<lambda>saved s2. Returned (printed, saved) s2))"

text \<open>What \<^verbatim>\<open>validate_business_rules\<close> still has to do when rule 2 is done: rules 3 to 10
  of the JSON validator, rules 3 to 7 of the XML validator.\<close>

definition json_rules_after_date :: "env \<Rightarrow> pyval \<Rightarrow> pyval \<Rightarrow> bool \<Rightarrow> vstate \<Rightarrow> bool outcome" where
  "json_rules_after_date E d items v2 s2 =
     and_then (json_rule3 E d v2 s2) (\<lambda>v3 s3.
     and_then (json_rule4 items v3 s3) (\<lambda>v4 s4.
     and_then (json_rule5 d v4 s4) (\<lambda>v5 s5.
     and_then (json_rule6 d v5 s5) (\<lambda>v6 s6.
     and_then (json_rule7 d v6 s6) (\<lambda>v7 s7.
     and_then (json_rule8 d v7 s7) (\<lambda>v8 s8.
     and_then (json_rule9 d items v8 s8) (\<lambda>v9 s9.
       json_rule10 d v9 s9)))))))"

definition xml_rules_after_date :: "env \<Rightarrow> pyval \<Rightarrow> bool \<Rightarrow> vstate \<Rightarrow> bool outcome" where
  "xml_rules_after_date E xml_data v2 s2 =
     and_then (xml_rule3 E xml_data v2 s2) (\<lambda>v3 s3.
     and_then (xml_rule4 E xml_data v3 s3) (\<lambda>v4 s4.
     and_then (xml_rule5 xml_data v4 s4) (\<lambda>v5 s5.
     and_then (xml_rule6 xml_data v5 s5) (\<lambda>v6 s6.
       xml_rule7 xml_data v6 s6))))"

section \<open>Example receipts\<close>

definition demo_env :: env where
  "demo_env =
     \<lparr>fromisoformat = map_of [(''2024-01-15T10:30:00+00:00'', 20240115)],
      strptime_ymd = map_of [(''2024-01-15'', 20240115)],
      now = 20250101,
      float_of_str = map_of [(''100.00'', 100), (''100.02'', 10002 / 100), (''2.50'', 5 / 2),
                             (''5.00'', 5), (''5.50'', 11 / 2), (''25.00'', 25)],
      int_of_str = map_of [(''2'', 2)]\<rparr>"

definition line_item :: "rat \<Rightarrow> pyval" where
  "line_item subtotal =
     PDict [(''name'', PStr ''Tea''), (''quantity'', PInt 2), (''unit_price'', PFloat (5 / 2)),
            (''subtotal'', PFloat subtotal), (''tax_applied'', PBool True)]"

definition receipt_fields :: "pyval \<Rightarrow> pyval \<Rightarrow> pyval \<Rightarrow> pyval \<Rightarrow> (string \<times> pyval) list" where
  "receipt_fields purchase_date items total_amount grand_total =
     [(''receipt_id'', PStr ''RCPT_0001''),
      (''purchase_date'', purchase_date),
      (''store_name'', PStr ''Corner Shop''),
      (''customer'', PDict [(''email'', PStr ''jo@example.org'')]),
      (''store'', PDict [(''city'', PStr ''Nairobi'')]),
      (''items'', items),
      (''payment'', PDict [(''amount_paid'', grand_total)]),
      (''transaction'', PDict [(''id'', PStr ''T1'')]),
      (''footer'', PDict [(''note'', PStr ''Thanks'')]),
      (''total_amount'', total_amount),
      (''pricing'', PDict [(''subtotal'', grand_total), (''grand_total'', grand_total)]),
      (''payment_method'', PStr ''Cash''),
      (''digital_signature'',
         PDict [(''algorithm'', PStr ''SHA256''), (''signature'', PStr ''c2ln'')])]"

definition make_receipt :: "pyval \<Rightarrow> pyval \<Rightarrow> pyval \<Rightarrow> pyval \<Rightarrow> pyval" where
  "make_receipt purchase_date items total_amount grand_total =
     PDict (receipt_fields purchase_date items total_amount grand_total)"

definition five_items :: pyval where
  "five_items = PList [line_item 5, line_item 5, line_item 5, line_item 5, line_item 5]"

definition good_receipt :: pyval where
  "good_receipt = make_receipt (PStr ''2024-01-15T10:30:00Z'') five_items (PFloat 25) (PFloat 25)"


definition bad_total_receipt :: pyval where
  "bad_total_receipt =
     make_receipt (PStr ''2024-01-15T10:30:00Z'') five_items (PStr ''abc'') (PFloat 25)"

definition bad_date_receipt :: pyval where
  "bad_date_receipt = PDict [(''purchase_date'', PStr ''yesterday'')]"



definition setup_for :: "pyval \<Rightarrow> string option \<Rightarrow> bool \<Rightarrow> schema_result \<Rightarrow> json_setup" where
  "setup_for d schema lib r =
     \<lparr>json_file = ''shopping_receipt.json'', schema_file = schema, jsonschema_available = lib,
      file_content = Loaded d, schema_outcome = r\<rparr>"

definition xml_leaf :: "string \<Rightarrow> string \<Rightarrow> xml" where
  "xml_leaf tg txt = Element tg [] (Some txt) []"

definition xml_item :: "string \<Rightarrow> xml" where
  "xml_item subtotal =
     Element ''item'' [] None
       [xml_leaf ''name'' ''Tea'', xml_leaf ''quantity'' ''2'', xml_leaf ''unit_price'' ''2.50'',
        xml_leaf ''subtotal'' subtotal, xml_leaf ''tax_applied'' ''true'']"

definition single_item_tree :: xml where
  "single_item_tree =
     Element ''receipt'' [(''version'', ''1.0'')] (Some [CHR 0x0A, CHR '' ''])
       [xml_leaf ''purchase_date'' ''2024-01-15'',
        Element ''items'' [] None [xml_item ''5.00''],
        xml_leaf ''total_amount'' ''5.00'']"

definition card_tree :: "string \<Rightarrow> xml" where
  "card_tree last_four =
     Element ''receipt'' [] None
       [xml_leaf ''payment_method'' ''Credit Card'',
        Element ''payment'' [] None
          [xml_leaf ''card_type'' ''Visa'', xml_leaf ''card_number_last_four'' last_four]]"

definition bad_date_tree :: xml where
  "bad_date_tree =
     Element ''receipt'' [] None
       [xml_leaf ''purchase_date'' ''15/01/2024'', xml_leaf ''total_amount'' ''abc'']"

definition flat_fields :: "(string \<times> string) list" where
  "flat_fields = [(''store_name'', ''Corner Shop''), (''payment_method'', ''Cash'')]"


definition flat_map :: pyval where
  "flat_map = PDict (map (\<lambda>kv. (fst kv, PStr (snd kv))) flat_fields)"

text \<open>What the JSON validator, given a schema file but no schema library, finds in
  \<open>flat_map\<close>.\<close>

definition flat_map_errors :: "msg list" where
  "flat_map_errors =
     [[Lit ''JSON Schema validation requires jsonschema library''],
      min_items_msg 0,
      [Lit ''Digital signature must include algorithm and signature''],
      [Lit ''Required field missing: '', Lit ''receipt_id''],
      [Lit ''Required field missing: '', Lit ''purchase_date''],
      [Lit ''Required field missing: '', Lit ''customer''],
      [Lit ''Required field missing: '', Lit ''store''],
      [Lit ''Required field missing: '', Lit ''items''],
      [Lit ''Required field missing: '', Lit ''payment''],
      [Lit ''Required field missing: '', Lit ''transaction''],
      [Lit ''Required field missing: '', Lit ''footer'']]"

definition flat_map_warnings :: "msg list" where
  "flat_map_warnings = [[Lit ''Receipt ID format may be incorrect: '', Val (PStr [])]]"

definition xml_setup_for :: "xml \<Rightarrow> bool \<Rightarrow> xsd_result \<Rightarrow> xml_setup" where
  "xml_setup_for t lib r =
     \<lparr>xml_file = ''shopping_receipt.xml'', xsd_file = ''receipt_schema.xsd'',
      lxml_available = lib, xml_content = XmlParsed t, xsd_outcome = r\<rparr>"

section \<open>Findings are append-only\<close>

lemma extends_refl [simp]: "extends s s"
  by (simp add: extends_def)

lemma extends_add_error: "extends s t \<Longrightarrow> extends s (add_error m t)"
  by (auto simp: extends_def add_error_def prefix_def)

lemma extends_add_warning: "extends s t \<Longrightarrow> extends s (add_warning m t)"
  by (auto simp: extends_def add_warning_def prefix_def)

lemma eval_then_extends:
  "(\<And>x. r = Inr x \<Longrightarrow> extends s0 (final_state (f x))) \<Longrightarrow> extends s0 s
     \<Longrightarrow> extends s0 (final_state (eval_then r s f))"
  by (cases r) (simp_all add: eval_then_def)

lemma and_then_extends:
  "extends s0 (final_state r) \<Longrightarrow> (\<And>x s1. extends s0 s1 \<Longrightarrow> extends s0 (final_state (f x s1)))
     \<Longrightarrow> extends s0 (final_state (and_then r f))"
  by (cases r) (simp_all add: and_then_def)

lemmas ext_intros = eval_then_extends and_then_extends extends_add_error extends_add_warning

lemma json_rule1_extends: "extends s0 s \<Longrightarrow> extends s0 (final_state (json_rule1 items v s))"
  unfolding json_rule1_def by (intro eval_then_extends) (auto intro: ext_intros)

lemma json_rule2_extends: "extends s0 s \<Longrightarrow> extends s0 (final_state (json_rule2 E d v s))"
  unfolding json_rule2_def
  by (intro eval_then_extends) (auto intro: ext_intros split: pyval.splits option.splits)

lemma json_rule3_extends: "extends s0 s \<Longrightarrow> extends s0 (final_state (json_rule3 E d v s))"
  unfolding json_rule3_def
  by (intro eval_then_extends) (auto intro!: ext_intros)

lemma json_check_item_extends:
  "extends s0 s \<Longrightarrow> extends s0 (final_state (json_check_item i item v s))"
  unfolding json_check_item_def Let_def
  by (intro eval_then_extends) (auto intro!: ext_intros)

lemma json_items_loop_extends:
  "extends s0 s \<Longrightarrow> extends s0 (final_state (json_items_loop i xs v s))"
proof (induction xs arbitrary: i v s)
  case Nil
  then show ?case by simp
next
  case (Cons x xs)
  show ?case
    by (simp, rule and_then_extends) (auto intro: json_check_item_extends Cons)
qed

lemma json_rule4_extends: "extends s0 s \<Longrightarrow> extends s0 (final_state (json_rule4 items v s))"
  unfolding json_rule4_def
  by (intro eval_then_extends) (auto intro: json_items_loop_extends)

lemma json_rule5_extends: "extends s0 s \<Longrightarrow> extends s0 (final_state (json_rule5 d v s))"
  unfolding json_rule5_def
  by (intro eval_then_extends) (auto intro!: ext_intros)

lemma json_rule6_extends: "extends s0 s \<Longrightarrow> extends s0 (final_state (json_rule6 d v s))"
  unfolding json_rule6_def
  by (intro eval_then_extends) (auto intro!: ext_intros)

lemma json_rule7_extends: "extends s0 s \<Longrightarrow> extends s0 (final_state (json_rule7 d v s))"
  unfolding json_rule7_def Let_def
  by (intro eval_then_extends) (auto intro!: ext_intros)

lemma json_rule8_extends: "extends s0 s \<Longrightarrow> extends s0 (final_state (json_rule8 d v s))"
  unfolding json_rule8_def
  by (intro eval_then_extends) (auto intro!: ext_intros)

lemma price_loop_extends: "extends s0 s \<Longrightarrow> extends s0 (final_state (price_loop ps v s))"
proof (induction ps arbitrary: v s)
  case Nil
  then show ?case by simp
next
  case (Cons p ps)
  show ?case
    by (simp, intro eval_then_extends) (auto intro!: Cons ext_intros)
qed

lemma json_rule9_extends:
  "extends s0 s \<Longrightarrow> extends s0 (final_state (json_rule9 d items v s))"
  unfolding json_rule9_def
  by (intro eval_then_extends) (auto intro: price_loop_extends)

lemma required_loop_extends:
  "extends s0 s \<Longrightarrow> extends s0 (final_state (required_loop d fs v s))"
proof (induction fs arbitrary: v s)
  case Nil
  then show ?case by simp
next
  case (Cons f fs)
  show ?case
    by (simp, intro eval_then_extends) (auto intro!: Cons ext_intros)
qed

lemma json_rule10_extends: "extends s0 s \<Longrightarrow> extends s0 (final_state (json_rule10 d v s))"
  unfolding json_rule10_def by (rule required_loop_extends)

lemmas json_rules_extend = json_rule1_extends json_rule2_extends json_rule3_extends
  json_rule4_extends json_rule5_extends json_rule6_extends json_rule7_extends
  json_rule8_extends json_rule9_extends json_rule10_extends

lemma json_validate_business_rules_extends:
  "extends s0 s \<Longrightarrow> extends s0 (final_state (json_validate_business_rules E d s))"
  unfolding json_validate_business_rules_def
  by (auto intro!: eval_then_extends and_then_extends json_rules_extend extends_add_error)

lemma json_validate_data_types_extends:
  "extends s0 s \<Longrightarrow> extends s0 (final_state (json_validate_data_types E d s))"
  unfolding json_validate_data_types_def Let_def
  by (auto intro!: ext_intros split: pyval.splits option.splits)

lemma and_then_ReturnedE:
  assumes "and_then r f = Returned y t"
  obtains x s where "r = Returned x s" and "f x s = Returned y t"
  using assms by (cases r) (simp_all add: and_then_def)

lemma eval_then_ReturnedE:
  assumes "eval_then r s f = Returned y t"
  obtains x where "r = Inr x" and "f x = Returned y t"
  using assms by (cases r) (simp_all add: eval_then_def)


lemma extends_errors_nonempty: "extends s t \<Longrightarrow> errors s \<noteq> [] \<Longrightarrow> errors t \<noteq> []"
  by (auto simp: extends_def prefix_def)

text \<open>A report that is returned carries every error that was there after the business rules.\<close>

lemma json_report_keeps_errors:
  assumes run: "json_generate_report E J s0 = Returned rep s'"
      and loaded: "file_content J = Loaded d"
  shows "\<exists>s1 cv s2. extends s0 s1
           \<and> s1 = (if (case schema_file J of None \<Rightarrow> False | Some f \<Rightarrow> f \<noteq> [])
                   then snd (json_validate_schema (jsonschema_available J) d (schema_outcome J) s0)
                   else s0)
           \<and> json_validate_business_rules E d s1 = Returned cv s2
           \<and> extends s2 s' \<and> rp_errors rep = errors s'
           \<and> rp_overall_valid rep = (errors s' = [])"
proof -
  define s1 where "s1 = (if (case schema_file J of None \<Rightarrow> False | Some f \<Rightarrow> f \<noteq> [])
                   then snd (json_validate_schema (jsonschema_available J) d (schema_outcome J) s0)
                   else s0)"
  have e01: "extends s0 s1"
    unfolding s1_def json_validate_schema_def Let_def
    by (auto intro!: ext_intros split: schema_result.splits)
  from run loaded have "\<exists>cv s2 tv.
      json_validate_business_rules E d s1 = Returned cv s2 \<and>
      json_validate_data_types E d s2 = Returned tv s' \<and>
      rp_errors rep = errors s' \<and> rp_overall_valid rep = (errors s' = [])"
    unfolding json_generate_report_def Let_def s1_def
    by (auto elim!: and_then_ReturnedE eval_then_ReturnedE split: if_splits)
  then obtain cv s2 tv where
    br: "json_validate_business_rules E d s1 = Returned cv s2" and
    dt: "json_validate_data_types E d s2 = Returned tv s'" and
    rep: "rp_errors rep = errors s'" "rp_overall_valid rep = (errors s' = [])"
    by blast
  have e23: "extends s2 s'"
    using json_validate_data_types_extends[of s2 s2 E d] dt by simp
  show ?thesis
    using e01 br e23 rep s1_def by auto
qed

section \<open>The header total against the pricing total\<close>










section \<open>The subtotal of a line item\<close>









section \<open>Credit card payments\<close>





section \<open>Normalising a tree\<close>

lemma map_of_dict_set: "map_of (dict_set k v kvs) k' = (if k' = k then Some v else map_of kvs k')"
  by (induction kvs) auto

lemma map_of_add_child_other:
  "fst child \<noteq> k \<Longrightarrow> map_of (add_child r child) k = map_of r k"
  by (auto simp: add_child_def map_of_dict_set split: option.splits pyval.splits)

lemma map_of_add_child_new:
  "map_of r (fst child) = None \<Longrightarrow> map_of (add_child r child) (fst child) = Some (snd child)"
  by (auto simp: add_child_def map_of_dict_set)

lemma map_of_foldl_add_child_other:
  "\<forall>c \<in> set cs. fst c \<noteq> k \<Longrightarrow> map_of (foldl add_child r cs) k = map_of r k"
  by (induction cs arbitrary: r) (auto simp: map_of_add_child_other)

lemma map_of_attrs:
  "hd k \<noteq> CHR ''@'' \<Longrightarrow> map_of r k = None \<Longrightarrow>
   map_of (foldl (\<lambda>r kv. dict_set (CHR ''@'' # fst kv) (PStr (snd kv)) r) r attrs) k = None"
proof (induction attrs arbitrary: r)
  case Nil
  then show ?case by simp
next
  case (Cons a attrs)
  have "k \<noteq> CHR ''@'' # fst a" using Cons.prems(1) by auto
  then have "map_of (dict_set (CHR ''@'' # fst a) (PStr (snd a)) r) k = None"
    using Cons.prems(2) by (simp add: map_of_dict_set)
  then show ?case using Cons.IH Cons.prems(1) by simp
qed

text \<open>A tag that exactly one child of an element carries is a key of the element's
  dictionary, and its value is that child's own conversion, not a list.\<close>

lemma only_child_lookup:
  assumes "chs = pre @ c # post"
      and "\<forall>x \<in> set (pre @ post). el_tag x \<noteq> k"
      and "el_tag c = k" and "hd k \<noteq> CHR ''@''" and "k \<noteq> ''#text''"
  shows "py_get (xml_to_dict (Element tg attrs txt chs)) k dflt = Inr (xml_to_dict c)"
proof -
  let ?base = "foldl (\<lambda>r kv. dict_set (CHR ''@'' # fst kv) (PStr (snd kv)) r) [] attrs"
  let ?tagged = "\<lambda>xs. map (\<lambda>c. (el_tag c, xml_to_dict c)) xs"
  have base: "map_of ?base k = None"
    using assms(4) by (simp add: map_of_attrs)
  have look: "map_of (foldl add_child r (?tagged chs)) k = Some (xml_to_dict c)"
    if "map_of r k = None" for r
  proof -
    have 1: "map_of (foldl add_child r (?tagged pre)) k = None"
      using assms(2) that by (subst map_of_foldl_add_child_other) auto
    have 2: "map_of (add_child (foldl add_child r (?tagged pre)) (el_tag c, xml_to_dict c)) k
               = Some (xml_to_dict c)"
      using map_of_add_child_new[of "foldl add_child r (?tagged pre)" "(el_tag c, xml_to_dict c)"]
            1 assms(3) by simp
    show ?thesis
      using assms(1,2) 2 by (simp add: map_of_foldl_add_child_other)
  qed
  have ne: "chs \<noteq> []" using assms(1) by simp
  show ?thesis
  proof (cases "stripped_text txt")
    case None
    then show ?thesis using look[OF base] by simp
  next
    case (Some t)
    have "map_of (dict_set ''#text'' (PStr t) ?base) k = None"
      using base assms(5) by (simp add: map_of_dict_set)
    from look[OF this] show ?thesis using Some ne by simp
  qed
qed

text \<open>
  C9: in a tree whose root has exactly one \<^verbatim>\<open>items\<close> child, and that child exactly one
  child, tagged \<^verbatim>\<open>item\<close>, which converts to a map, the entry \<^verbatim>\<open>item\<close> of the normalised
  \<^verbatim>\<open>items\<close> is that single map and not a one-element list, and rule 1 of the XML validator
  takes the number of fields of the map as the number of items.
\<close>

theorem C9_single_item_counts_fields:
  assumes "chs = pre @ Element ''items'' attrs txt [c] # post"
      and "\<forall>x \<in> set (pre @ post). el_tag x \<noteq> ''items''"
      and "el_tag c = ''item''"
      and "xml_to_dict c = PDict flds"
  shows "py_get (xml_to_dict (Element ''items'' attrs txt [c])) ''item'' (PList [])
           = Inr (PDict flds)
       \<and> py_get (xml_to_dict (Element ''items'' attrs txt [c])) ''item'' (PList [])
           \<noteq> Inr (PList [xml_to_dict c])
       \<and> xml_rule1 (xml_to_dict (Element tg rattrs rtxt chs)) v s =
           (if length flds < 5
            then Returned False (add_error (min_items_msg (length flds)) s)
            else Returned v (add_warning (items_passed_msg (length flds)) s))"
proof -
  let ?items = "Element ''items'' attrs txt [c]"
  have in_items: "py_get (xml_to_dict ?items) ''item'' (PList []) = Inr (PDict flds)"
    using only_child_lookup[of "[c]" "[]" c "[]" "''item''" "''items''" attrs "txt" "PList []"]
          assms(3,4) by simp
  have in_root: "py_get (xml_to_dict (Element tg rattrs rtxt chs)) ''items'' (PDict [])
                 = Inr (xml_to_dict ?items)"
    using only_child_lookup[OF assms(1,2), of tg rattrs rtxt "PDict []"] by simp
  have rule: "xml_rule1 (xml_to_dict (Element tg rattrs rtxt chs)) v s =
           (if length flds < 5
            then Returned False (add_error (min_items_msg (length flds)) s)
            else Returned v (add_warning (items_passed_msg (length flds)) s))"
    unfolding xml_rule1_def using in_items in_root by (simp add: eval_then_def)
  show ?thesis using in_items rule by simp
qed

theorem C9_single_item_witness:
  "py_get (xml_to_dict (Element ''items'' [] None [xml_item ''5.00''])) ''item'' (PList [])
     = Inr (PDict [(''name'', PStr ''Tea''), (''quantity'', PStr ''2''),
                   (''unit_price'', PStr ''2.50''), (''subtotal'', PStr ''5.00''),
                   (''tax_applied'', PStr ''true'')])
   \<and> xml_rule1 (xml_to_dict single_item_tree) True init_state
     = Returned True (add_warning (items_passed_msg 5) init_state)"
proof -
  let ?fields = "[(''name'', PStr ''Tea''), (''quantity'', PStr ''2''),
                  (''unit_price'', PStr ''2.50''), (''subtotal'', PStr ''5.00''),
                  (''tax_applied'', PStr ''true'')]"
  have h1: "[xml_leaf ''purchase_date'' ''2024-01-15'',
             Element ''items'' [] None [xml_item ''5.00''],
             xml_leaf ''total_amount'' ''5.00'']
            = [xml_leaf ''purchase_date'' ''2024-01-15'']
              @ Element ''items'' [] None [xml_item ''5.00'']
              # [xml_leaf ''total_amount'' ''5.00'']"
    by simp
  have h2: "\<forall>x \<in> set ([xml_leaf ''purchase_date'' ''2024-01-15'']
                        @ [xml_leaf ''total_amount'' ''5.00'']). el_tag x \<noteq> ''items''"
    by (simp add: xml_leaf_def)
  have h3: "el_tag (xml_item ''5.00'') = ''item''"
    by (simp add: xml_item_def)
  have h4: "xml_to_dict (xml_item ''5.00'') = PDict ?fields"
    by code_simp
  show ?thesis
    using C9_single_item_counts_fields[OF h1 h2 h3 h4,
            of "''receipt''" "[(''version'', ''1.0'')]" "Some [CHR 0x0A, CHR '' '']" True init_state]
    by (simp add: single_item_tree_def)
qed

section \<open>The verdict\<close>

lemma xml_rule1_extends: "extends s0 s \<Longrightarrow> extends s0 (final_state (xml_rule1 d v s))"
  unfolding xml_rule1_def by (intro eval_then_extends) (auto intro!: ext_intros)

lemma xml_rule2_extends: "extends s0 s \<Longrightarrow> extends s0 (final_state (xml_rule2 E d v s))"
  unfolding xml_rule2_def
  by (intro eval_then_extends) (auto intro: ext_intros split: pyval.splits option.splits)

lemma xml_rule3_extends: "extends s0 s \<Longrightarrow> extends s0 (final_state (xml_rule3 E d v s))"
  unfolding xml_rule3_def
  by (intro eval_then_extends) (auto intro!: ext_intros)

lemma xml_check_item_extends:
  "extends s0 s \<Longrightarrow> extends s0 (final_state (xml_check_item E i item v s))"
  unfolding xml_check_item_def Let_def
  by (intro eval_then_extends) (auto intro!: ext_intros)

lemma xml_items_loop_extends:
  "extends s0 s \<Longrightarrow> extends s0 (final_state (xml_items_loop E i xs v s))"
proof (induction xs arbitrary: i v s)
  case Nil
  then show ?case by simp
next
  case (Cons x xs)
  show ?case
    by (simp, rule and_then_extends) (auto intro: xml_check_item_extends Cons)
qed

lemma xml_rule4_extends: "extends s0 s \<Longrightarrow> extends s0 (final_state (xml_rule4 E d v s))"
  unfolding xml_rule4_def
  by (intro eval_then_extends) (auto intro: xml_items_loop_extends)

lemma xml_rule5_extends: "extends s0 s \<Longrightarrow> extends s0 (final_state (xml_rule5 d v s))"
  unfolding xml_rule5_def
  by (intro eval_then_extends) (auto intro!: ext_intros)

lemma xml_rule6_extends: "extends s0 s \<Longrightarrow> extends s0 (final_state (xml_rule6 d v s))"
  unfolding xml_rule6_def
  by (intro eval_then_extends) (auto intro!: ext_intros)

lemma xml_rule7_extends: "extends s0 s \<Longrightarrow> extends s0 (final_state (xml_rule7 d v s))"
  unfolding xml_rule7_def
  by (intro eval_then_extends) (auto intro!: ext_intros)

lemmas xml_rules_extend = xml_rule1_extends xml_rule2_extends xml_rule3_extends
  xml_rule4_extends xml_rule5_extends xml_rule6_extends xml_rule7_extends

lemma xml_validate_business_rules_extends:
  "extends s0 s \<Longrightarrow> extends s0 (final_state (xml_validate_business_rules E d s))"
  unfolding xml_validate_business_rules_def
  by (auto intro!: and_then_extends xml_rules_extend)

lemma validate_xml_content_extends: "extends s (snd (validate_xml_content E X s))"
proof (cases "xml_content X")
  case (XmlParsed t)
  have "extends s (final_state (xml_validate_business_rules E (xml_to_dict t) s))"
    by (rule xml_validate_business_rules_extends) simp
  then show ?thesis
    using XmlParsed
    by (cases "xml_validate_business_rules E (xml_to_dict t) s")
       (auto simp: validate_xml_content_def intro: extends_add_error)
qed (auto simp: validate_xml_content_def intro: extends_add_error)

lemma json_schema_failure_leaves_error:
  "\<not> a \<or> r \<noteq> SchemaValid \<Longrightarrow> errors (snd (json_validate_schema a d r s)) \<noteq> []"
  by (cases r) (auto simp: json_validate_schema_def Let_def add_error_def)

lemma foldl_add_error_nonempty:
  "errors s \<noteq> [] \<or> elog \<noteq> [] \<Longrightarrow>
   errors (foldl (\<lambda>s' error. add_error [Lit ''Schema validation error: '', Lit error] s') s elog) \<noteq> []"
  by (induction elog arbitrary: s) (auto simp: add_error_def)

lemma xml_schema_failure_leaves_error:
  assumes "lxml_available X"
      and "case xsd_outcome X of
             XsdValid \<Rightarrow> False | XsdInvalid elog \<Rightarrow> elog \<noteq> [] | XsdFailed t \<Rightarrow> True"
  shows "errors (snd (xml_validate_schema X s)) \<noteq> []"
proof (cases "xsd_outcome X")
  case XsdValid
  then show ?thesis using assms(2) by simp
next
  case (XsdInvalid elog)
  then show ?thesis
    using assms by (simp add: xml_validate_schema_def foldl_add_error_nonempty)
next
  case (XsdFailed t)
  then show ?thesis
    using assms by (simp add: xml_validate_schema_def add_error_def)
qed

text \<open>
  C1, as the code has it: in a report that \<^verbatim>\<open>generate_report\<close> returns,
  \<^verbatim>\<open>overall_valid\<close> is true exactly when the report's list of errors is empty, whatever
  the warnings are. The schema check is not advisory: when the JSON validator is given a
  schema file and the schema library is unavailable or the check fails, and when the XML
  validator has \<^verbatim>\<open>lxml\<close> and the XSD check fails with a message, an error is appended and
  \<^verbatim>\<open>overall_valid\<close> is false.
\<close>

theorem C1_overall_valid_iff_no_errors:
  assumes "json_generate_report E J s0 = Returned rep s'"
  shows "(rp_overall_valid rep \<longleftrightarrow> rp_errors rep = [])
       \<and> ((case schema_file J of None \<Rightarrow> False | Some f \<Rightarrow> f \<noteq> [])
            \<and> (\<not> jsonschema_available J \<or> schema_outcome J \<noteq> SchemaValid)
            \<and> file_content J = Loaded d
          \<longrightarrow> \<not> rp_overall_valid rep)
       \<and> (xr_overall_valid (fst (xml_generate_report E X x0))
            \<longleftrightarrow> xr_errors (fst (xml_generate_report E X x0)) = [])
       \<and> (lxml_available X
            \<and> (case xsd_outcome X of
                  XsdValid \<Rightarrow> False | XsdInvalid elog \<Rightarrow> elog \<noteq> [] | XsdFailed t \<Rightarrow> True)
          \<longrightarrow> \<not> xr_overall_valid (fst (xml_generate_report E X x0)))"
proof (intro conjI impI)
  show "rp_overall_valid rep \<longleftrightarrow> rp_errors rep = []"
  proof (cases "file_content J")
    case (Loaded d')
    from json_report_keeps_errors[OF assms Loaded] show ?thesis by auto
  next
    case (DecodeFailed t)
    with assms show ?thesis
      by (auto simp: json_generate_report_def Let_def add_error_def)
  next
    case (LoadFailed t)
    with assms show ?thesis
      by (auto simp: json_generate_report_def Let_def add_error_def)
  qed
next
  assume h: "(case schema_file J of None \<Rightarrow> False | Some f \<Rightarrow> f \<noteq> [])
            \<and> (\<not> jsonschema_available J \<or> schema_outcome J \<noteq> SchemaValid)
            \<and> file_content J = Loaded d"
  from json_report_keeps_errors[OF assms, of d] h obtain s1 cv s2 where
    s1: "s1 = snd (json_validate_schema (jsonschema_available J) d (schema_outcome J) s0)" and
    br: "json_validate_business_rules E d s1 = Returned cv s2" and
    e2: "extends s2 s'" and rep: "rp_overall_valid rep = (errors s' = [])"
    by auto
  have "errors s1 \<noteq> []"
    using h s1 json_schema_failure_leaves_error by blast
  moreover have "extends s1 s2"
    using json_validate_business_rules_extends[of s1 s1 E d] br by simp
  ultimately have "errors s' \<noteq> []"
    using e2 extends_errors_nonempty by blast
  then show "\<not> rp_overall_valid rep"
    using rep by simp
next
  show "xr_overall_valid (fst (xml_generate_report E X x0))
          \<longleftrightarrow> xr_errors (fst (xml_generate_report E X x0)) = []"
    by (simp add: xml_generate_report_def Let_def)
next
  assume h: "lxml_available X
            \<and> (case xsd_outcome X of
                  XsdValid \<Rightarrow> False | XsdInvalid elog \<Rightarrow> elog \<noteq> [] | XsdFailed t \<Rightarrow> True)"
  then have "errors (snd (xml_validate_schema X x0)) \<noteq> []"
    using xml_schema_failure_leaves_error by blast
  then have "errors (snd (validate_xml_content E X (snd (xml_validate_schema X x0)))) \<noteq> []"
    using validate_xml_content_extends extends_errors_nonempty by blast
  then show "\<not> xr_overall_valid (fst (xml_generate_report E X x0))"
    using h by (simp add: xml_generate_report_def Let_def)
qed

theorem C1_schema_violation_witness:
  "map_option rp_overall_valid
     (returned (json_generate_report demo_env
        (setup_for good_receipt (Some ''shopping_receipt_schema.json'') True
           (SchemaInvalid ''7 is not of type string'' [''store_name''])) init_state))
     = Some False
   \<and> \<not> xr_overall_valid (fst (xml_generate_report demo_env
        (xml_setup_for (card_tree ''1234'') True (XsdFailed ''no such file'')) init_state))"
proof -
  let ?J = "setup_for good_receipt (Some ''shopping_receipt_schema.json'') True
              (SchemaInvalid ''7 is not of type string'' [''store_name''])"
  let ?X = "xml_setup_for (card_tree ''1234'') True (XsdFailed ''no such file'')"
  have "returned (json_generate_report demo_env ?J init_state) \<noteq> None"
    by code_simp
  then obtain rep s' where run: "json_generate_report demo_env ?J init_state = Returned rep s'"
    by (cases "json_generate_report demo_env ?J init_state") auto
  have j: "(case schema_file ?J of None \<Rightarrow> False | Some f \<Rightarrow> f \<noteq> [])
            \<and> (\<not> jsonschema_available ?J \<or> schema_outcome ?J \<noteq> SchemaValid)
            \<and> file_content ?J = Loaded good_receipt"
    by (simp add: setup_for_def)
  have x: "lxml_available ?X
            \<and> (case xsd_outcome ?X of
                  XsdValid \<Rightarrow> False | XsdInvalid elog \<Rightarrow> elog \<noteq> [] | XsdFailed t \<Rightarrow> True)"
    by (simp add: xml_setup_for_def)
  from C1_overall_valid_iff_no_errors[OF run, of good_receipt ?X init_state] j x
  have "\<not> rp_overall_valid rep
        \<and> \<not> xr_overall_valid (fst (xml_generate_report demo_env ?X init_state))"
    by blast
  then show ?thesis using run by simp
qed

theorem C1_schema_unavailable_counterexample:
  "map_option rp_overall_valid
     (returned (json_generate_report demo_env
        (setup_for good_receipt None False SchemaValid) init_state)) = Some True
   \<and> map_option rp_overall_valid
     (returned (json_generate_report demo_env
        (setup_for good_receipt (Some ''shopping_receipt_schema.json'') False SchemaValid)
        init_state)) = Some False
   \<and> map_option rp_errors
     (returned (json_generate_report demo_env
        (setup_for good_receipt (Some ''shopping_receipt_schema.json'') False SchemaValid)
        init_state)) = Some [[Lit ''JSON Schema validation requires jsonschema library'']]"
  by code_simp

section \<open>The two encodings\<close>




lemma strip_Nil [simp]: "strip [] = []"
  by (simp add: strip_def)





section \<open>A rule that cannot be evaluated\<close>

text \<open>
  C3, as the code has it: a \<^verbatim>\<open>purchase_date\<close> string that the date parser rejects makes
  rule 2 of either validator append its error and return, and \<^verbatim>\<open>validate_business_rules\<close>
  goes on with every rule after it, from the findings that now hold that error. Other data
  that a rule cannot use raises an exception; in the XML validator
  \<^verbatim>\<open>validate_xml_content\<close> catches it, appends one error naming it and returns false
  without running the remaining rules.
\<close>

theorem C3_unparseable_date_is_isolated:
  "(py_get d ''purchase_date'' PNone = Inr (PStr p) \<and> p \<noteq> []
      \<and> fromisoformat E (replace_Z p) = None
    \<longrightarrow> json_rule2 E d v s
          = Returned False (add_error [Lit ''Invalid date format: '', ExcText ValueError] s))
   \<and> (py_get d ''purchase_date'' PNone = Inr (PStr p) \<and> p \<noteq> []
      \<and> fromisoformat E (replace_Z p) = None
      \<and> py_get d ''items'' (PList []) = Inr items \<and> json_rule1 items True s = Returned v1 s1
    \<longrightarrow> json_validate_business_rules E d s
          = json_rules_after_date E d items False
              (add_error [Lit ''Invalid date format: '', ExcText ValueError] s1))
   \<and> (py_get xd ''purchase_date'' PNone = Inr (PStr xp) \<and> xp \<noteq> []
      \<and> strptime_ymd E xp = None
    \<longrightarrow> xml_rule2 E xd v s
          = Returned False (add_error [Lit ''Invalid date format. Expected YYYY-MM-DD''] s))
   \<and> (py_get xd ''purchase_date'' PNone = Inr (PStr xp) \<and> xp \<noteq> []
      \<and> strptime_ymd E xp = None \<and> xml_rule1 xd True s = Returned xv1 xs1
    \<longrightarrow> xml_validate_business_rules E xd s
          = xml_rules_after_date E xd False
              (add_error [Lit ''Invalid date format. Expected YYYY-MM-DD''] xs1))
   \<and> (xml_content X = XmlParsed t
      \<and> xml_validate_business_rules E (xml_to_dict t) s = Raised e s'
    \<longrightarrow> validate_xml_content E X s
          = (False, add_error [Lit ''XML content validation failed: '', ExcText e] s'))"
proof (intro conjI impI)
  assume h: "py_get d ''purchase_date'' PNone = Inr (PStr p) \<and> p \<noteq> []
      \<and> fromisoformat E (replace_Z p) = None"
  then show "json_rule2 E d v s
          = Returned False (add_error [Lit ''Invalid date format: '', ExcText ValueError] s)"
    by (simp add: json_rule2_def eval_then_def)
next
  assume h: "py_get d ''purchase_date'' PNone = Inr (PStr p) \<and> p \<noteq> []
      \<and> fromisoformat E (replace_Z p) = None
      \<and> py_get d ''items'' (PList []) = Inr items \<and> json_rule1 items True s = Returned v1 s1"
  then have r2: "json_rule2 E d v1 s1
          = Returned False (add_error [Lit ''Invalid date format: '', ExcText ValueError] s1)"
    by (simp add: json_rule2_def eval_then_def)
  have "truthy d"
    using h by (cases d) auto
  then show "json_validate_business_rules E d s
          = json_rules_after_date E d items False
              (add_error [Lit ''Invalid date format: '', ExcText ValueError] s1)"
    using h r2
    by (simp add: json_validate_business_rules_def json_rules_after_date_def eval_then_def
          and_then_def)
next
  assume h: "py_get xd ''purchase_date'' PNone = Inr (PStr xp) \<and> xp \<noteq> []
      \<and> strptime_ymd E xp = None"
  then show "xml_rule2 E xd v s
          = Returned False (add_error [Lit ''Invalid date format. Expected YYYY-MM-DD''] s)"
    by (simp add: xml_rule2_def eval_then_def)
next
  assume h: "py_get xd ''purchase_date'' PNone = Inr (PStr xp) \<and> xp \<noteq> []
      \<and> strptime_ymd E xp = None \<and> xml_rule1 xd True s = Returned xv1 xs1"
  then have r2: "xml_rule2 E xd xv1 xs1
          = Returned False (add_error [Lit ''Invalid date format. Expected YYYY-MM-DD''] xs1)"
    by (simp add: xml_rule2_def eval_then_def)
  show "xml_validate_business_rules E xd s
          = xml_rules_after_date E xd False
              (add_error [Lit ''Invalid date format. Expected YYYY-MM-DD''] xs1)"
    using h r2
    by (simp add: xml_validate_business_rules_def xml_rules_after_date_def and_then_def)
next
  assume "xml_content X = XmlParsed t
      \<and> xml_validate_business_rules E (xml_to_dict t) s = Raised e s'"
  then show "validate_xml_content E X s
          = (False, add_error [Lit ''XML content validation failed: '', ExcText e] s')"
    by (simp add: validate_xml_content_def)
qed

theorem C3_unparseable_date_witness:
  "json_validate_business_rules demo_env bad_date_receipt init_state
     = json_rules_after_date demo_env bad_date_receipt (PList []) False
         \<lparr>errors = [min_items_msg 0, [Lit ''Invalid date format: '', ExcText ValueError]],
          warnings = []\<rparr>
   \<and> errors (final_state (json_validate_business_rules demo_env bad_date_receipt init_state))
     = [min_items_msg 0, [Lit ''Invalid date format: '', ExcText ValueError],
        [Lit ''Digital signature must include algorithm and signature''],
        [Lit ''Required field missing: '', Lit ''receipt_id''],
        [Lit ''Required field missing: '', Lit ''store_name''],
        [Lit ''Required field missing: '', Lit ''customer''],
        [Lit ''Required field missing: '', Lit ''store''],
        [Lit ''Required field missing: '', Lit ''items''],
        [Lit ''Required field missing: '', Lit ''payment''],
        [Lit ''Required field missing: '', Lit ''transaction''],
        [Lit ''Required field missing: '', Lit ''footer'']]
   \<and> xml_validate_business_rules demo_env (xml_to_dict bad_date_tree) init_state
     = xml_rules_after_date demo_env (xml_to_dict bad_date_tree) False
         \<lparr>errors = [min_items_msg 0, [Lit ''Invalid date format. Expected YYYY-MM-DD'']],
          warnings = []\<rparr>
   \<and> validate_xml_content demo_env (xml_setup_for bad_date_tree False XsdValid) init_state
     = (False,
        \<lparr>errors = [min_items_msg 0, [Lit ''Invalid date format. Expected YYYY-MM-DD''],
                   [Lit ''XML content validation failed: '', ExcText ValueError]],
         warnings = []\<rparr>)"
proof -
  let ?s1 = "\<lparr>errors = [min_items_msg 0], warnings = []\<rparr>"
  let ?X = "xml_setup_for bad_date_tree False XsdValid"
  let ?s' = "\<lparr>errors = [min_items_msg 0, [Lit ''Invalid date format. Expected YYYY-MM-DD'']],
              warnings = []\<rparr>"
  have j: "py_get bad_date_receipt ''purchase_date'' PNone = Inr (PStr ''yesterday'')
           \<and> ''yesterday'' \<noteq> [] \<and> fromisoformat demo_env (replace_Z ''yesterday'') = None
           \<and> py_get bad_date_receipt ''items'' (PList []) = Inr (PList [])
           \<and> json_rule1 (PList []) True init_state = Returned False ?s1"
    by code_simp
  have x: "py_get (xml_to_dict bad_date_tree) ''purchase_date'' PNone = Inr (PStr ''15/01/2024'')
           \<and> ''15/01/2024'' \<noteq> [] \<and> strptime_ymd demo_env ''15/01/2024'' = None
           \<and> xml_rule1 (xml_to_dict bad_date_tree) True init_state = Returned False ?s1"
    by code_simp
  have r: "xml_content ?X = XmlParsed bad_date_tree
           \<and> xml_validate_business_rules demo_env (xml_to_dict bad_date_tree) init_state
               = Raised ValueError ?s'"
    by code_simp
  have whole: "errors (final_state (json_validate_business_rules demo_env bad_date_receipt init_state))
     = [min_items_msg 0, [Lit ''Invalid date format: '', ExcText ValueError],
        [Lit ''Digital signature must include algorithm and signature''],
        [Lit ''Required field missing: '', Lit ''receipt_id''],
        [Lit ''Required field missing: '', Lit ''store_name''],
        [Lit ''Required field missing: '', Lit ''customer''],
        [Lit ''Required field missing: '', Lit ''store''],
        [Lit ''Required field missing: '', Lit ''items''],
        [Lit ''Required field missing: '', Lit ''payment''],
        [Lit ''Required field missing: '', Lit ''transaction''],
        [Lit ''Required field missing: '', Lit ''footer'']]"
    by code_simp
  note inst = C3_unparseable_date_is_isolated[of bad_date_receipt "''yesterday''" demo_env
               False init_state "PList []" False ?s1 "xml_to_dict bad_date_tree" "''15/01/2024''"
               False ?s1 ?X bad_date_tree ValueError ?s']
  from inst j
  have a: "json_validate_business_rules demo_env bad_date_receipt init_state
             = json_rules_after_date demo_env bad_date_receipt (PList []) False
                 (add_error [Lit ''Invalid date format: '', ExcText ValueError] ?s1)"
    by blast
  from inst x
  have b: "xml_validate_business_rules demo_env (xml_to_dict bad_date_tree) init_state
             = xml_rules_after_date demo_env (xml_to_dict bad_date_tree) False
                 (add_error [Lit ''Invalid date format. Expected YYYY-MM-DD''] ?s1)"
    by blast
  from inst r
  have c: "validate_xml_content demo_env ?X init_state
             = (False, add_error [Lit ''XML content validation failed: '', ExcText ValueError] ?s')"
    by blast
  show ?thesis
    using a b c whole by (simp add: add_error_def)
qed

theorem C3_bad_total_counterexample:
  "json_generate_report demo_env (setup_for bad_total_receipt None False SchemaValid) init_state
     = Raised ValueError \<lparr>errors = [], warnings = [items_passed_msg 5]\<rparr>
   \<and> validate_xml_content demo_env (xml_setup_for bad_date_tree False XsdValid) init_state
     = (False,
        \<lparr>errors = [min_items_msg 0, [Lit ''Invalid date format. Expected YYYY-MM-DD''],
                   [Lit ''XML content validation failed: '', ExcText ValueError]],
         warnings = []\<rparr>)
   \<and> final_state (xml_rule7 (xml_to_dict bad_date_tree) False init_state)
     = \<lparr>errors = [[Lit ''Digital signature must include algorithm and signature'']],
        warnings = []\<rparr>"
  by code_simp

section \<open>Two defects\<close>

text \<open>
  C4 at a tree with one item of five fields: rule 1 of the XML validator counts the five
  fields and appends the warning that the count passed, not the error; the only error of
  the report comes from rule 4, which then iterates over the keys of the item.
\<close>

theorem C4_single_item_tree_passes_count:
  "xml_rule1 (xml_to_dict single_item_tree) True init_state
     = Returned True (add_warning (items_passed_msg 5) init_state)
   \<and> xr_errors (fst (xml_generate_report demo_env
        (xml_setup_for single_item_tree False XsdValid) init_state))
     = [[Lit ''XML content validation failed: '', ExcText AttributeError]]
   \<and> xr_warnings (fst (xml_generate_report demo_env
        (xml_setup_for single_item_tree False XsdValid) init_state))
     = [items_passed_msg 5]"
  by code_simp

text \<open>
  C8 at the two calls of \<^verbatim>\<open>generate_report\<close> that \<^verbatim>\<open>main()\<close> makes on one validator:
  the errors of the saved report are those of the printed report twice over.
\<close>

theorem C8_second_report_repeats_findings:
  "map_option
     (\<lambda>reports. rp_errors (fst reports) = flat_map_errors
                \<and> rp_errors (snd reports) = flat_map_errors @ flat_map_errors
                \<and> rp_warnings (snd reports) = flat_map_warnings @ flat_map_warnings)
     (returned (json_main_reports demo_env (setup_for flat_map (Some ''shopping_receipt_schema.json'') False SchemaValid)))
   = Some True"
proof -
  let ?J = "setup_for flat_map (Some ''shopping_receipt_schema.json'') False SchemaValid"
  let ?s1 = "\<lparr>errors = flat_map_errors, warnings = flat_map_warnings\<rparr>"
  have first: "map_option rp_errors (returned (json_generate_report demo_env ?J init_state))
                 = Some flat_map_errors
               \<and> final_state (json_generate_report demo_env ?J init_state) = ?s1"
    by code_simp
  have second: "map_option (\<lambda>r. (rp_errors r, rp_warnings r))
                  (returned (json_generate_report demo_env ?J ?s1))
                  = Some (flat_map_errors @ flat_map_errors, flat_map_warnings @ flat_map_warnings)"
    by code_simp
  obtain printed where p: "json_generate_report demo_env ?J init_state = Returned printed ?s1"
    using first by (cases "json_generate_report demo_env ?J init_state") auto
  obtain saved s2 where q: "json_generate_report demo_env ?J ?s1 = Returned saved s2"
    using second by (cases "json_generate_report demo_env ?J ?s1") auto
  have "json_main_reports demo_env ?J = Returned (printed, saved) s2"
    by (simp add: json_main_reports_def and_then_def p q)
  then show ?thesis
    using first second p q by simp
qed

end
